theory Spec2Isabelle
  imports Complex_Main "HOL-Library.Word"
begin

section \<open>The two programs as traces of library calls\<close>

text \<open>
  The repository holds two programs: \<^verbatim>\<open>src/cr1ms0nh3ad_opengl/main.cpp\<close> (a window cleared
  to one colour; \<open>main1\<close> below) and \<^verbatim>\<open>src/unnamed/part_000\<close> (the wireframe quad;
  \<open>main2\<close> below). Both are straight-line sequences of GLFW, glad and OpenGL calls around
  one \<^verbatim>\<open>while\<close> loop. The embedding keeps that shape:

  \<^item> a \<open>call\<close> is one library call with the arguments the source passes;
  \<^item> a part of \<^verbatim>\<open>main\<close> is the list of calls it makes, in program order;
  \<^item> what the libraries answer (is the window created, does glad load, which handles are
    handed out, the compile and link status, the info logs) is a \<open>driver\<close> record;
  \<^item> what the window system delivers while the loop runs is a list of \<open>frame\<close>s: the
    state of the backspace key when it is sampled, and the framebuffer-size events that
    \<^verbatim>\<open>glfwPollEvents\<close> dispatches at the end of that iteration;
  \<^item> the state the calls act on is a \<open>world\<close> record, and \<open>exec\<close> is the effect of
    one call on it.

  Only the program writes the window's close flag in this model: the flag changes through
  \<^verbatim>\<open>glfwSetWindowShouldClose\<close> alone, the one writer the sources contain.
\<close>

subsection \<open>Types of the libraries\<close>

type_synonym GLuint = "32 word"

type_synonym GLfloat = rat
  \<comment> \<open>a float literal of the source, as the number written there; no arithmetic is done on it\<close>

type_synonym rect = "int \<times> int \<times> int \<times> int"

datatype hint = GLFW_CONTEXT_VERSION_MAJOR | GLFW_CONTEXT_VERSION_MINOR | GLFW_OPENGL_PROFILE

datatype hint_value = Number int | GLFW_OPENGL_CORE_PROFILE

datatype key = GLFW_KEY_BACKSPACE

datatype key_action = GLFW_RELEASE | GLFW_PRESS

datatype shader_type = GL_VERTEX_SHADER | GL_FRAGMENT_SHADER

datatype status_name = GL_COMPILE_STATUS | GL_LINK_STATUS

datatype buffer_target = GL_ARRAY_BUFFER | GL_ELEMENT_ARRAY_BUFFER

datatype usage = GL_STATIC_DRAW

datatype buffer_data = Floats "GLfloat list" | UInts "GLuint list"

datatype component_type = GL_FLOAT | GL_UNSIGNED_INT

datatype face = GL_FRONT | GL_BACK | GL_FRONT_AND_BACK

datatype polygon_mode = GL_POINT | GL_LINE | GL_FILL

datatype clear_mask = GL_COLOR_BUFFER_BIT

datatype primitive = GL_TRIANGLES

text \<open>An event of the window system that GLFW hands to a callback of the program.\<close>

datatype event = FramebufferSize nat nat

datatype call =
    glfwInit
  | glfwWindowHint hint hint_value
  | glfwCreateWindow int int string
  | glfwTerminate
  | glfwMakeContextCurrent
  | glfwSetFramebufferSizeCallback
  | gladLoadGLLoader
  | cout string
  | glCreateShader shader_type
  | glShaderSource GLuint nat string
  | glCompileShader GLuint
  | glGetShaderiv GLuint status_name
  | glGetShaderInfoLog GLuint nat
  | glCreateProgram
  | glAttachShader GLuint GLuint
  | glLinkProgram GLuint
  | glGetProgramiv GLuint status_name
  | glGetProgramInfoLog GLuint nat
  | glDeleteShader GLuint
  | glGenVertexArrays nat
  | glGenBuffers nat
  | glBindVertexArray GLuint
  | glBindBuffer buffer_target GLuint
  | glBufferData buffer_target nat buffer_data usage
  | glVertexAttribPointer GLuint int component_type bool nat nat
  | glEnableVertexAttribArray GLuint
  | glPolygonMode face polygon_mode
  | glfwWindowShouldClose
  | glfwGetKey key
  | glfwSetWindowShouldClose bool
  | glClearColor GLfloat GLfloat GLfloat GLfloat
  | glClear clear_mask
  | glUseProgram GLuint
  | glDrawElements primitive nat component_type nat
  | glfwSwapBuffers
  | glfwPollEvents
  | dispatch event
  | glViewport int int int int

text \<open>
  \<open>cout s\<close> is \<^verbatim>\<open>std::cout << ... << std::endl\<close> with \<open>s\<close> the text before the
  \<^verbatim>\<open>endl\<close>. \<open>dispatch e\<close> marks the point inside \<^verbatim>\<open>glfwPollEvents\<close> where GLFW
  enters the callback registered for \<open>e\<close>; the calls of the callback follow it.
\<close>

subsection \<open>What the libraries answer\<close>

text \<open>
  The fields carry the names of the locals of \<^verbatim>\<open>main\<close> that receive the answers. The two
  status fields are the \<^verbatim>\<open>int success\<close> that \<^verbatim>\<open>glGetShaderiv\<close> and
  \<^verbatim>\<open>glGetProgramiv\<close> write.
\<close>

record driver =
  window_created :: bool
  glad_loaded :: bool
  initial_viewport :: rect
  vertexShader :: GLuint
  vertex_compile_status :: int
  vertex_info_log :: string
  fragmentShader :: GLuint
  fragment_compile_status :: int
  fragment_info_log :: string
  shaderProgram :: GLuint
  link_status :: int
  program_info_log :: string
  VAO :: GLuint
  VBO :: GLuint
  EBO :: GLuint

record frame =
  backspace :: key_action
  events :: "event list"

subsection \<open>The state the calls act on\<close>

record vertex_attrib =
  components :: int
  component :: component_type
  normalized :: bool
  stride :: nat
  offset :: nat
  source_buffer :: GLuint

record world =
  should_close :: bool
  viewport :: rect
  polygon_front :: polygon_mode
  polygon_back :: polygon_mode
  clear_color :: "GLfloat \<times> GLfloat \<times> GLfloat \<times> GLfloat"
  current_program :: GLuint
  vertex_array_binding :: GLuint
  array_buffer_binding :: GLuint
  attribs :: "((GLuint \<times> GLuint) \<times> vertex_attrib) list"
  enabled_attribs :: "(GLuint \<times> GLuint) list"

text \<open>
  The effect of one call. \<open>attribs\<close> and \<open>enabled_attribs\<close> are keyed by the vertex
  array bound at the time and the attribute slot. \<^verbatim>\<open>glViewport\<close> with a negative size
  is an error that leaves the viewport as it was. Every call not listed leaves these
  fields alone; the element buffer binding, which belongs to the bound vertex array, is
  not among them.
\<close>

fun exec :: "call \<Rightarrow> world \<Rightarrow> world" where
  "exec (glfwSetWindowShouldClose b) w = w\<lparr>should_close := b\<rparr>"
| "exec (glViewport x y wd ht) w =
     (if wd < 0 \<or> ht < 0 then w else w\<lparr>viewport := (x, y, wd, ht)\<rparr>)"
| "exec (glPolygonMode GL_FRONT m) w = w\<lparr>polygon_front := m\<rparr>"
| "exec (glPolygonMode GL_BACK m) w = w\<lparr>polygon_back := m\<rparr>"
| "exec (glPolygonMode GL_FRONT_AND_BACK m) w = w\<lparr>polygon_front := m, polygon_back := m\<rparr>"
| "exec (glClearColor r g b a) w = w\<lparr>clear_color := (r, g, b, a)\<rparr>"
| "exec (glUseProgram p) w = w\<lparr>current_program := p\<rparr>"
| "exec (glBindVertexArray a) w = w\<lparr>vertex_array_binding := a\<rparr>"
| "exec (glBindBuffer GL_ARRAY_BUFFER b) w = w\<lparr>array_buffer_binding := b\<rparr>"
| "exec (glVertexAttribPointer i n t nrm st off) w =
     w\<lparr>attribs :=
         ((vertex_array_binding w, i),
          \<lparr>components = n, component = t, normalized = nrm, stride = st, offset = off,
           source_buffer = array_buffer_binding w\<rparr>) # attribs w\<rparr>"
| "exec (glEnableVertexAttribArray i) w =
     w\<lparr>enabled_attribs := (vertex_array_binding w, i) # enabled_attribs w\<rparr>"
| "exec _ w = w"

definition run :: "call list \<Rightarrow> world \<Rightarrow> world" where
  "run cs w = fold exec cs w"

text \<open>
  The world when \<^verbatim>\<open>main\<close> starts: a window that is not asked to close, the defaults of
  OpenGL (polygons filled, clear colour zero, nothing bound) and the viewport the context
  starts with.
\<close>

definition world0 :: "driver \<Rightarrow> world" where
  "world0 d =
     \<lparr>should_close = False, viewport = initial_viewport d,
      polygon_front = GL_FILL, polygon_back = GL_FILL, clear_color = (0, 0, 0, 0),
      current_program = 0, vertex_array_binding = 0, array_buffer_binding = 0,
      attribs = [], enabled_attribs = []\<rparr>"

subsection \<open>Constants of the sources\<close>

definition SCR_WIDTH :: "32 word" where
  "SCR_WIDTH = 1024"

definition SCR_HEIGHT :: "32 word" where
  "SCR_HEIGHT = 1024"

definition sizeof_float :: nat where
  "sizeof_float = 4"

definition sizeof_unsigned_int :: nat where
  "sizeof_unsigned_int = 4"

text \<open>The two shader sources, up to the \<^verbatim>\<open>\0\<close> that ends each literal.\<close>

definition vertexShaderSource :: string where
  "vertexShaderSource =
     ''#version 330 core'' @ [CHR 0x0A] @
     ''layout (location = 0) in vec3 aPos;'' @ [CHR 0x0A] @
     ''void main()'' @ [CHR 0x0A] @
     ''{'' @ [CHR 0x0A] @
     [CHR 0x09] @ ''gl_Position = vec4(aPos.x, aPos.y, aPos.z, 1.0);'' @ [CHR 0x0A] @
     ''}''"

definition fragmentShaderSource :: string where
  "fragmentShaderSource =
     ''#version 330 core'' @ [CHR 0x0A] @
     ''out vec4 FragColor;'' @ [CHR 0x0A] @
     ''void main()'' @ [CHR 0x0A] @
     ''{'' @ [CHR 0x0A] @
     [CHR 0x09] @ ''FragColor = vec4(1.0f, 0.0f, 0.0f, 1.0f);'' @ [CHR 0x0A] @
     ''}''"

text \<open>\<^verbatim>\<open>float vertices[]\<close> and \<^verbatim>\<open>unsigned int indices[]\<close> of the second program.\<close>

definition vertices :: "GLfloat list" where
  "vertices =
     [1/2, 1/2, 0,
      1/2, - (1/2), 0,
      - (1/2), - (1/2), 0,
      - (1/2), 1/2, 0]"

definition indices :: "GLuint list" where
  "indices =
     [0, 1, 3,
      1, 2, 3]"

text \<open>How \<^verbatim>\<open>GL_TRIANGLES\<close> reads a list of indices: three by three.\<close>

fun triangles :: "'a list \<Rightarrow> ('a \<times> 'a \<times> 'a) list" where
  "triangles (a # b # c # xs) = (a, b, c) # triangles xs"
| "triangles _ = []"

definition corners :: "'a \<times> 'a \<times> 'a \<Rightarrow> 'a set" where
  "corners t = (case t of (a, b, c) \<Rightarrow> {a, b, c})"

subsection \<open>Functions shared by the two sources\<close>

text \<open>
  \<^verbatim>\<open>framebuffer_size_callback\<close> and \<^verbatim>\<open>processInput\<close> are the same text in both files
  (\<^verbatim>\<open>main.cpp\<close> lines 68-71 and 75-81, \<^verbatim>\<open>part_000\<close> lines 198-201 and 205-211).
  \<open>processInput\<close> takes what \<^verbatim>\<open>glfwGetKey\<close> answers in this iteration.
\<close>

definition framebuffer_size_callback :: "int \<Rightarrow> int \<Rightarrow> call list" where
  "framebuffer_size_callback width height = [glViewport 0 0 width height]"

definition processInput :: "key_action \<Rightarrow> call list" where
  "processInput pressed =
     glfwGetKey GLFW_KEY_BACKSPACE #
     (if pressed = GLFW_PRESS then [glfwSetWindowShouldClose True] else [])"

text \<open>
  \<^verbatim>\<open>glfwPollEvents\<close>: GLFW enters the registered callback once for each pending
  framebuffer-size event, in the order of arrival.
\<close>

fun handler :: "event \<Rightarrow> call list" where
  "handler (FramebufferSize x y) = framebuffer_size_callback (int x) (int y)"

definition pollEvents :: "event list \<Rightarrow> call list" where
  "pollEvents es = glfwPollEvents # concat (map (\<lambda>e. dispatch e # handler e) es)"

text \<open>
  The \<^verbatim>\<open>while (!glfwWindowShouldClose(window))\<close> loop, over the frames that the window
  system supplies. The list of frames is the fuel: when it is used up while the flag is
  still clear, the loop is \<open>RUNNING\<close> and has not returned.
\<close>

datatype loop_state = RUNNING | STOPPED

fun render_loop :: "(frame \<Rightarrow> call list) \<Rightarrow> frame list \<Rightarrow> world \<Rightarrow> call list \<times> world \<times> loop_state" where
  "render_loop body [] w =
     ([glfwWindowShouldClose], w, if should_close w then STOPPED else RUNNING)"
| "render_loop body (f # fs) w =
     (if should_close w then ([glfwWindowShouldClose], w, STOPPED)
      else (case render_loop body fs (run (body f) w) of
              (cs, w', st) \<Rightarrow> (glfwWindowShouldClose # body f @ cs, w', st)))"

text \<open>Lines 36-45 (22-24 in \<^verbatim>\<open>main.cpp\<close>): initialise GLFW and ask for the window.\<close>

definition startup :: "call list" where
  "startup =
     [glfwInit,
      glfwWindowHint GLFW_CONTEXT_VERSION_MAJOR (Number 3),
      glfwWindowHint GLFW_CONTEXT_VERSION_MINOR (Number 3),
      glfwWindowHint GLFW_OPENGL_PROFILE GLFW_OPENGL_CORE_PROFILE,
      glfwCreateWindow (sint SCR_WIDTH) (sint SCR_HEIGHT) ''cr1ms0nh3ad'']"

text \<open>Lines 52-57 (31-36): make the context current, register the callback, load glad.\<close>

definition make_context :: "call list" where
  "make_context = [glfwMakeContextCurrent, glfwSetFramebufferSizeCallback, gladLoadGLLoader]"

subsection \<open>The first program: \<^verbatim>\<open>src/cr1ms0nh3ad_opengl/main.cpp\<close>\<close>

text \<open>One pass through the loop body, lines 46-57.\<close>

definition frame1 :: "frame \<Rightarrow> call list" where
  "frame1 f =
     processInput (backspace f) @
     [glClearColor 1 (325/1000) (7/10) 1,
      glClear GL_COLOR_BUFFER_BIT,
      glfwSwapBuffers] @
     pollEvents (events f)"

text \<open>
  \<^verbatim>\<open>main\<close>: the calls made and the value returned; \<open>None\<close> when the frames are used
  up before the loop stops.
\<close>

definition main1 :: "driver \<Rightarrow> frame list \<Rightarrow> call list \<times> int option" where
  "main1 d fs =
     (if \<not> window_created d then
        (startup @ [cout ''failed to create GLFW window'', glfwTerminate], Some (- 1))
      else if \<not> glad_loaded d then
        (startup @ make_context @ [cout ''failed to initialize GLAD''], Some (- 1))
      else
        (case render_loop frame1 fs (run (startup @ make_context) (world0 d)) of
           (cs, w, STOPPED) \<Rightarrow> (startup @ make_context @ cs @ [glfwTerminate], Some 0)
         | (cs, w, RUNNING) \<Rightarrow> (startup @ make_context @ cs, None)))"

subsection \<open>The second program: \<^verbatim>\<open>src/unnamed/part_000\<close>\<close>

text \<open>
  \<^verbatim>\<open>glGetShaderInfoLog(shader, 512, NULL, infoLog)\<close> fills \<^verbatim>\<open>char infoLog[512]\<close> with
  at most 511 characters of the log and the terminating zero.
\<close>

definition infoLog :: "string \<Rightarrow> string" where
  "infoLog s = take 511 s"

text \<open>Lines 63-111: compile the two stages, link them, delete the stage objects.\<close>

definition shaders :: "driver \<Rightarrow> call list" where
  "shaders d =
     [glCreateShader GL_VERTEX_SHADER,
      glShaderSource (vertexShader d) 1 vertexShaderSource,
      glCompileShader (vertexShader d),
      glGetShaderiv (vertexShader d) GL_COMPILE_STATUS] @
     (if vertex_compile_status d = 0 then
        [glGetShaderInfoLog (vertexShader d) 512,
         cout (''ERROR::SHADER::VERTEX::COMPILATION_FAILED'' @ [CHR 0x0A] @
               infoLog (vertex_info_log d))]
      else []) @
     [glCreateShader GL_FRAGMENT_SHADER,
      glShaderSource (fragmentShader d) 1 fragmentShaderSource,
      glCompileShader (fragmentShader d),
      glCreateProgram,
      glAttachShader (shaderProgram d) (vertexShader d),
      glAttachShader (shaderProgram d) (fragmentShader d),
      glLinkProgram (shaderProgram d),
      glGetProgramiv (shaderProgram d) GL_LINK_STATUS] @
     (if link_status d = 0 then
        [glGetProgramInfoLog (shaderProgram d) 512,
         cout (''ERROR::SHADER::PROGRAM::LINKING::FAILED'' @ [CHR 0x0A] @
               infoLog (program_info_log d))]
      else []) @
     [glDeleteShader (vertexShader d),
      glDeleteShader (fragmentShader d)]"

text \<open>Lines 113-158: the buffers and the layout of attribute 0.\<close>

definition geometry :: "driver \<Rightarrow> call list" where
  "geometry d =
     [glGenVertexArrays 1,
      glGenBuffers 1,
      glGenBuffers 1,
      glBindVertexArray (VAO d),
      glBindBuffer GL_ARRAY_BUFFER (VBO d),
      glBindBuffer GL_ELEMENT_ARRAY_BUFFER (EBO d),
      glBufferData GL_ARRAY_BUFFER (length vertices * sizeof_float) (Floats vertices)
        GL_STATIC_DRAW,
      glBufferData GL_ELEMENT_ARRAY_BUFFER (length indices * sizeof_unsigned_int)
        (UInts indices) GL_STATIC_DRAW,
      glVertexAttribPointer 0 3 GL_FLOAT False (3 * sizeof_float) 0,
      glEnableVertexAttribArray 0,
      glBindBuffer GL_ARRAY_BUFFER 0,
      glBindVertexArray 0]"

text \<open>One pass through the loop body, lines 168-187.\<close>

definition frame2 :: "driver \<Rightarrow> frame \<Rightarrow> call list" where
  "frame2 d f =
     processInput (backspace f) @
     [glClearColor 0 0 0 1,
      glClear GL_COLOR_BUFFER_BIT,
      glUseProgram (shaderProgram d),
      glBindVertexArray (VAO d),
      glBindBuffer GL_ELEMENT_ARRAY_BUFFER (EBO d),
      glDrawElements GL_TRIANGLES 6 GL_UNSIGNED_INT 0,
      glfwSwapBuffers] @
     pollEvents (events f)"

text \<open>Everything \<^verbatim>\<open>main\<close> does between loading glad and entering the loop.\<close>

definition before_loop :: "driver \<Rightarrow> call list" where
  "before_loop d = shaders d @ geometry d @ [glPolygonMode GL_FRONT_AND_BACK GL_LINE]"

definition main2 :: "driver \<Rightarrow> frame list \<Rightarrow> call list \<times> int option" where
  "main2 d fs =
     (if \<not> window_created d then
        (startup @ [cout ''failed to create GLFW window'', glfwTerminate], Some (- 1))
      else if \<not> glad_loaded d then
        (startup @ make_context @ [cout ''failed to initialize GLAD''], Some (- 1))
      else
        (case render_loop (frame2 d) fs (run (startup @ make_context @ before_loop d) (world0 d)) of
           (cs, w, STOPPED) \<Rightarrow> (startup @ make_context @ before_loop d @ cs @ [glfwTerminate], Some 0)
         | (cs, w, RUNNING) \<Rightarrow> (startup @ make_context @ before_loop d @ cs, None)))"

subsection \<open>Reading a trace\<close>

text \<open>
  \<open>observe P g cs w\<close> replays \<open>cs\<close> from \<open>w\<close> and collects \<open>g\<close> of the world in
  which each call satisfying \<open>P\<close> is made.
\<close>

fun observe :: "(call \<Rightarrow> bool) \<Rightarrow> (world \<Rightarrow> 'a) \<Rightarrow> call list \<Rightarrow> world \<Rightarrow> 'a list" where
  "observe P g [] w = []"
| "observe P g (c # cs) w =
     (if P c then g w # observe P g cs (exec c w) else observe P g cs (exec c w))"

definition polygon_modes :: "world \<Rightarrow> polygon_mode \<times> polygon_mode" where
  "polygon_modes w = (polygon_front w, polygon_back w)"

fun is_draw :: "call \<Rightarrow> bool" where
  "is_draw (glDrawElements p n t off) = True"
| "is_draw _ = False"

fun is_clear :: "call \<Rightarrow> bool" where
  "is_clear (glClear m) = True"
| "is_clear _ = False"


fun is_cout :: "call \<Rightarrow> bool" where
  "is_cout (cout s) = True"
| "is_cout _ = False"


text \<open>The diagnostics a trace writes to the console.\<close>

definition logged :: "call list \<Rightarrow> call list" where
  "logged cs = filter is_cout cs"

text \<open>The calls that take a stage object as an argument.\<close>

fun stage_call :: "call \<Rightarrow> bool" where
  "stage_call (glShaderSource s n src) = True"
| "stage_call (glCompileShader s) = True"
| "stage_call (glGetShaderiv s n) = True"
| "stage_call (glGetShaderInfoLog s n) = True"
| "stage_call (glAttachShader p s) = True"
| "stage_call (glDeleteShader s) = True"
| "stage_call _ = False"

fun is_link :: "call \<Rightarrow> bool" where
  "is_link (glLinkProgram p) = True"
| "is_link _ = False"

text \<open>What a trace does after its first \<^verbatim>\<open>glLinkProgram\<close>.\<close>

definition after_link :: "call list \<Rightarrow> call list" where
  "after_link cs = tl (dropWhile (\<lambda>c. \<not> is_link c) cs)"

fun is_polygon_mode :: "call \<Rightarrow> bool" where
  "is_polygon_mode (glPolygonMode fc m) = True"
| "is_polygon_mode _ = False"

fun is_upload :: "call \<Rightarrow> bool" where
  "is_upload (glBufferData t n xs u) = True"
| "is_upload _ = False"

fun is_attrib_call :: "call \<Rightarrow> bool" where
  "is_attrib_call (glVertexAttribPointer i n t nrm st off) = True"
| "is_attrib_call (glEnableVertexAttribArray i) = True"
| "is_attrib_call _ = False"

text \<open>The frames whose loop body runs: all up to and including the first that sees the key pressed.\<close>

fun until_exit :: "frame list \<Rightarrow> frame list" where
  "until_exit [] = []"
| "until_exit (f # fs) = (if backspace f = GLFW_PRESS then [f] else f # until_exit fs)"

text \<open>
  Stale viewports. \<open>resized c r\<close> is the size of the last framebuffer-size event that has
  been handed to the program once \<open>c\<close> is done, \<open>r\<close> being that size before. The
  viewport is \<open>fresh\<close> when no such event has been processed yet or it covers exactly the
  size of the last one. \<open>no_stale_render r cs w\<close> replays \<open>cs\<close> and holds when every clear
  and every draw is made with a fresh viewport.
\<close>

fun resized :: "call \<Rightarrow> (nat \<times> nat) option \<Rightarrow> (nat \<times> nat) option" where
  "resized (dispatch (FramebufferSize x y)) r = Some (x, y)"
| "resized _ r = r"

fun fresh :: "(nat \<times> nat) option \<Rightarrow> world \<Rightarrow> bool" where
  "fresh None w = True"
| "fresh (Some (x, y)) w = (viewport w = (0, 0, int x, int y))"

fun no_stale_render :: "(nat \<times> nat) option \<Rightarrow> call list \<Rightarrow> world \<Rightarrow> bool" where
  "no_stale_render r [] w = True"
| "no_stale_render r (c # cs) w =
     ((if is_clear c \<or> is_draw c then fresh r w else True) \<and>
      no_stale_render (resized c r) cs (exec c w))"

subsection \<open>Sample answers of the libraries and of the window system\<close>

text \<open>A driver on which everything succeeds, and the failures the programs test for.\<close>

definition driver_ok :: driver where
  "driver_ok =
     \<lparr>window_created = True, glad_loaded = True, initial_viewport = (0, 0, 1024, 1024),
      vertexShader = 1, vertex_compile_status = 1, vertex_info_log = [],
      fragmentShader = 2, fragment_compile_status = 1, fragment_info_log = [],
      shaderProgram = 3, link_status = 1, program_info_log = [],
      VAO = 1, VBO = 1, EBO = 2\<rparr>"

definition driver_no_glad :: driver where
  "driver_no_glad = driver_ok\<lparr>glad_loaded := False\<rparr>"

definition driver_bad_fragment :: driver where
  "driver_bad_fragment =
     driver_ok\<lparr>fragment_compile_status := 0,
               fragment_info_log := ''0:5(2): error: syntax error'',
               link_status := 0,
               program_info_log := ''error: linking with uncompiled shader''\<rparr>"

definition driver_bad_vertex :: driver where
  "driver_bad_vertex =
     driver_ok\<lparr>vertex_compile_status := 0,
               vertex_info_log := ''0:5(2): error: syntax error'',
               link_status := 0,
               program_info_log := ''error: linking with uncompiled shader''\<rparr>"

definition idle :: frame where
  "idle = \<lparr>backspace = GLFW_RELEASE, events = []\<rparr>"

definition resize :: "nat \<Rightarrow> nat \<Rightarrow> frame" where
  "resize x y = \<lparr>backspace = GLFW_RELEASE, events = [FramebufferSize x y]\<rparr>"

definition quit :: frame where
  "quit = \<lparr>backspace = GLFW_PRESS, events = []\<rparr>"

section \<open>Properties\<close>

subsection \<open>Replaying traces\<close>

lemma run_Nil: "run [] w = w"
  by (simp add: run_def)

lemma run_Cons: "run (c # cs) w = run cs (exec c w)"
  by (simp add: run_def)

lemma run_append: "run (a @ b) w = run b (run a w)"
  by (simp add: run_def)

lemma observe_append:
  "observe P g (a @ b) w = observe P g a w @ observe P g b (run a w)"
  by (induction a arbitrary: w) (simp_all add: run_Nil run_Cons)

lemma observe_filter_Nil: "filter P cs = [] \<Longrightarrow> observe P g cs w = []"
  by (induction cs arbitrary: w) (simp_all split: if_splits)


lemma no_stale_append:
  "no_stale_render r (a @ b) w =
     (no_stale_render r a w \<and> no_stale_render (fold resized a r) b (run a w))"
  by (induction a arbitrary: r w) (simp_all add: run_Nil run_Cons)

subsection \<open>The parts of main that leave the world alone\<close>

lemma run_startup: "run startup w = w"
  by (simp add: startup_def run_Nil run_Cons)

lemma run_make_context: "run make_context w = w"
  by (simp add: make_context_def run_Nil run_Cons)

lemma run_shaders: "run (shaders d) w = w"
  by (simp add: shaders_def run_Nil run_Cons run_append)

lemma run_processInput:
  "run (processInput k) w = (if k = GLFW_PRESS then w\<lparr>should_close := True\<rparr> else w)"
  by (simp add: processInput_def run_Nil run_Cons)

lemma run_handlers_fields:
  "should_close (run (concat (map (\<lambda>e. dispatch e # handler e) es)) w) = should_close w \<and>
   polygon_front (run (concat (map (\<lambda>e. dispatch e # handler e) es)) w) = polygon_front w \<and>
   polygon_back (run (concat (map (\<lambda>e. dispatch e # handler e) es)) w) = polygon_back w"
proof (induction es arbitrary: w)
  case Nil
  show ?case by (simp add: run_Nil)
next
  case (Cons e es)
  obtain x y where e: "e = FramebufferSize x y" by (cases e)
  show ?case
    by (simp add: e run_Cons run_append framebuffer_size_callback_def Cons.IH)
qed

lemma should_close_pollEvents: "should_close (run (pollEvents es) w) = should_close w"
  by (simp add: pollEvents_def run_Cons run_handlers_fields)

lemma should_close_frame1:
  "should_close (run (frame1 f) w) = (should_close w \<or> backspace f = GLFW_PRESS)"
  by (simp add: frame1_def run_append run_Cons run_Nil should_close_pollEvents run_processInput)

lemma should_close_frame2:
  "should_close (run (frame2 d f) w) = (should_close w \<or> backspace f = GLFW_PRESS)"
  by (simp add: frame2_def run_append run_Cons run_Nil should_close_pollEvents run_processInput)

lemma filter_pollEvents:
  assumes "\<not> P glfwPollEvents" and "\<And>e. \<not> P (dispatch e)" and "\<And>x y. \<not> P (glViewport 0 0 x y)"
  shows "filter P (pollEvents es) = []"
proof -
  have "filter P (concat (map (\<lambda>e. dispatch e # handler e) es)) = []"
  proof (induction es)
    case Nil
    show ?case by simp
  next
    case (Cons e es)
    obtain x y where e: "e = FramebufferSize x y" by (cases e)
    show ?case using Cons.IH by (simp add: e framebuffer_size_callback_def assms)
  qed
  then show ?thesis by (simp add: pollEvents_def assms)
qed

subsection \<open>The loop\<close>

lemma fst_render_loop_Cons:
  "fst (render_loop body (f # fs) w) =
     (if should_close w then [glfwWindowShouldClose]
      else glfwWindowShouldClose # body f @ fst (render_loop body fs (run (body f) w)))"
  by (simp split: prod.splits)

lemma state_render_loop_Cons:
  "snd (snd (render_loop body (f # fs) w)) =
     (if should_close w then STOPPED else snd (snd (render_loop body fs (run (body f) w))))"
  by (simp split: prod.splits)

lemma render_loop_closed:
  "should_close w \<Longrightarrow> render_loop body fs w = ([glfwWindowShouldClose], w, STOPPED)"
  by (cases fs) simp_all

lemma render_loop_calls:
  assumes body: "\<And>f w. should_close (run (body f) w) = (should_close w \<or> backspace f = GLFW_PRESS)"
    and "\<not> should_close w"
  shows "fst (render_loop body fs w) =
           concat (map (\<lambda>f. glfwWindowShouldClose # body f) (until_exit fs)) @ [glfwWindowShouldClose]"
  using assms(2)
proof (induction fs arbitrary: w)
  case Nil
  then show ?case by simp
next
  case (Cons f fs)
  show ?case
  proof (cases "backspace f = GLFW_PRESS")
    case True
    then have "should_close (run (body f) w)" by (simp add: body)
    then show ?thesis using Cons.prems True
      by (simp only: fst_render_loop_Cons render_loop_closed) simp
  next
    case False
    with Cons.prems have "\<not> should_close (run (body f) w)" by (simp add: body)
    from Cons.IH [OF this] Cons.prems False show ?thesis
      by (simp only: fst_render_loop_Cons) simp
  qed
qed

lemma render_loop_state:
  assumes body: "\<And>f w. should_close (run (body f) w) = (should_close w \<or> backspace f = GLFW_PRESS)"
    and "\<not> should_close w"
  shows "snd (snd (render_loop body fs w)) =
           (if list_ex (\<lambda>f. backspace f = GLFW_PRESS) fs then STOPPED else RUNNING)"
  using assms(2)
proof (induction fs arbitrary: w)
  case Nil
  then show ?case by simp
next
  case (Cons f fs)
  show ?case
  proof (cases "backspace f = GLFW_PRESS")
    case True
    then have "should_close (run (body f) w)" by (simp add: body)
    then show ?thesis using Cons.prems True
      by (simp only: state_render_loop_Cons render_loop_closed) simp
  next
    case False
    with Cons.prems have "\<not> should_close (run (body f) w)" by (simp add: body)
    from Cons.IH [OF this] Cons.prems False show ?thesis
      by (simp only: state_render_loop_Cons) simp
  qed
qed


lemma run_before_loop_close: "should_close (run (before_loop d) w) = should_close w"
  by (simp add: before_loop_def geometry_def run_append run_Cons run_Nil run_shaders)

lemma entry_running:
  "\<not> should_close (run (startup @ make_context @ before_loop d) (world0 d))"
  by (simp add: run_append run_startup run_make_context run_before_loop_close world0_def)

lemma entry_running1:
  "\<not> should_close (run (startup @ make_context) (world0 d))"
  by (simp add: run_append run_startup run_make_context world0_def)

lemma main2_calls:
  assumes "window_created d" and "glad_loaded d"
  shows "fst (main2 d fs) =
           startup @ make_context @ before_loop d @
           concat (map (\<lambda>f. glfwWindowShouldClose # frame2 d f) (until_exit fs)) @
           glfwWindowShouldClose #
           (if list_ex (\<lambda>f. backspace f = GLFW_PRESS) fs then [glfwTerminate] else [])"
proof -
  let ?w = "run (startup @ make_context @ before_loop d) (world0 d)"
  obtain cs w' st where r: "render_loop (frame2 d) fs ?w = (cs, w', st)"
    by (cases "render_loop (frame2 d) fs ?w") auto
  have cs: "cs = concat (map (\<lambda>f. glfwWindowShouldClose # frame2 d f) (until_exit fs)) @ [glfwWindowShouldClose]"
    using render_loop_calls [of "frame2 d" ?w fs, OF should_close_frame2 entry_running] r by simp
  have st: "st = (if list_ex (\<lambda>f. backspace f = GLFW_PRESS) fs then STOPPED else RUNNING)"
    using render_loop_state [of "frame2 d" ?w fs, OF should_close_frame2 entry_running] r by simp
  show ?thesis using assms by (simp add: main2_def r cs st)
qed

lemma main2_exit:
  assumes "window_created d" and "glad_loaded d"
  shows "snd (main2 d fs) = (if list_ex (\<lambda>f. backspace f = GLFW_PRESS) fs then Some 0 else None)"
proof -
  let ?w = "run (startup @ make_context @ before_loop d) (world0 d)"
  obtain cs w' st where r: "render_loop (frame2 d) fs ?w = (cs, w', st)"
    by (cases "render_loop (frame2 d) fs ?w") auto
  have st: "st = (if list_ex (\<lambda>f. backspace f = GLFW_PRESS) fs then STOPPED else RUNNING)"
    using render_loop_state [of "frame2 d" ?w fs, OF should_close_frame2 entry_running] r by simp
  show ?thesis using assms by (simp add: main2_def r st)
qed


subsection \<open>Loop tests and draws\<close>


lemma filter_frame2_draw:
  "filter is_draw (frame2 d f) = [glDrawElements GL_TRIANGLES 6 GL_UNSIGNED_INT 0]"
  by (simp add: frame2_def processInput_def filter_pollEvents)

lemma filter_frame2_polygon_mode: "filter is_polygon_mode (frame2 d f) = []"
  by (simp add: frame2_def processInput_def filter_pollEvents)

lemma filter_draw_passes:
  "filter is_draw (concat (map (\<lambda>f. glfwWindowShouldClose # frame2 d f) fs)) =
     replicate (length fs) (glDrawElements GL_TRIANGLES 6 GL_UNSIGNED_INT 0)"
  by (induction fs) (simp_all add: filter_frame2_draw)

lemma filter_before_loop_draw: "filter is_draw (startup @ make_context @ before_loop d) = []"
  by (simp add: startup_def make_context_def before_loop_def shaders_def geometry_def)






lemma loop_keeps_running:
  assumes "window_created d" and "glad_loaded d"
    and "list_all (\<lambda>g. backspace g = GLFW_RELEASE) fs"
  shows "snd (main2 d fs) = None \<and>
         filter is_draw (fst (main2 d fs)) =
           replicate (length fs) (glDrawElements GL_TRIANGLES 6 GL_UNSIGNED_INT 0)"
proof -
  have no: "\<not> list_ex (\<lambda>g. backspace g = GLFW_PRESS) fs"
    using assms(3) by (auto simp: list_ex_iff list_all_iff)
  have all: "until_exit fs = fs"
    using assms(3) by (induction fs) simp_all
  have "filter is_draw (fst (main2 d fs)) =
          replicate (length fs) (glDrawElements GL_TRIANGLES 6 GL_UNSIGNED_INT 0)"
    using filter_before_loop_draw [of d] filter_draw_passes [of d fs]
    by (simp only: main2_calls [OF assms(1,2)] all no filter_append) simp
  then show ?thesis
    using main2_exit [OF assms(1,2), of fs] no by simp
qed

text \<open>
  Claim C5. When the window is created and glad loads, the trace of the second program is
  the calls made before the loop, then for every frame whose pass runs the same calls in
  the same order: the loop test; sampling the key (and asking the window to close when it
  is pressed); setting the clear colour to (0, 0, 0, 1) and clearing the colour buffer;
  binding the linked program; binding the vertex array and the index buffer; one
  \<^verbatim>\<open>glDrawElements\<close> of 6 indices read as triangles, which are 2 triangles; swapping the
  buffers; polling the events, with the callbacks that dispatches.
\<close>

theorem frame_actions_in_order:
  assumes "window_created d" and "glad_loaded d"
  shows "fst (main2 d fs) =
           startup @ make_context @ before_loop d @
           concat (map (\<lambda>f.
              [glfwWindowShouldClose, glfwGetKey GLFW_KEY_BACKSPACE] @
              (if backspace f = GLFW_PRESS then [glfwSetWindowShouldClose True] else []) @
              [glClearColor 0 0 0 1,
               glClear GL_COLOR_BUFFER_BIT,
               glUseProgram (shaderProgram d),
               glBindVertexArray (VAO d),
               glBindBuffer GL_ELEMENT_ARRAY_BUFFER (EBO d),
               glDrawElements GL_TRIANGLES 6 GL_UNSIGNED_INT 0,
               glfwSwapBuffers,
               glfwPollEvents] @
              concat (map (\<lambda>e. dispatch e # handler e) (events f)))
            (until_exit fs)) @
           glfwWindowShouldClose #
           (if list_ex (\<lambda>f. backspace f = GLFW_PRESS) fs then [glfwTerminate] else []) \<and>
         length (triangles (take 6 indices)) = 2"
proof -
  have "(\<lambda>f. glfwWindowShouldClose # frame2 d f) =
        (\<lambda>f. [glfwWindowShouldClose, glfwGetKey GLFW_KEY_BACKSPACE] @
              (if backspace f = GLFW_PRESS then [glfwSetWindowShouldClose True] else []) @
              [glClearColor 0 0 0 1,
               glClear GL_COLOR_BUFFER_BIT,
               glUseProgram (shaderProgram d),
               glBindVertexArray (VAO d),
               glBindBuffer GL_ELEMENT_ARRAY_BUFFER (EBO d),
               glDrawElements GL_TRIANGLES 6 GL_UNSIGNED_INT 0,
               glfwSwapBuffers,
               glfwPollEvents] @
              concat (map (\<lambda>e. dispatch e # handler e) (events f)))"
    by (rule ext) (simp add: frame2_def processInput_def pollEvents_def)
  moreover have "length (triangles (take 6 indices)) = 2"
    by (simp add: indices_def)
  ultimately show ?thesis
    using main2_calls [OF assms, of fs] by simp
qed


theorem frame_actions_in_order_witness:
  "fst (main2 driver_ok [idle, quit]) =
     startup @ make_context @ before_loop driver_ok @
     [glfwWindowShouldClose, glfwGetKey GLFW_KEY_BACKSPACE,
      glClearColor 0 0 0 1, glClear GL_COLOR_BUFFER_BIT, glUseProgram 3, glBindVertexArray 1,
      glBindBuffer GL_ELEMENT_ARRAY_BUFFER 2, glDrawElements GL_TRIANGLES 6 GL_UNSIGNED_INT 0,
      glfwSwapBuffers, glfwPollEvents,
      glfwWindowShouldClose, glfwGetKey GLFW_KEY_BACKSPACE, glfwSetWindowShouldClose True,
      glClearColor 0 0 0 1, glClear GL_COLOR_BUFFER_BIT, glUseProgram 3, glBindVertexArray 1,
      glBindBuffer GL_ELEMENT_ARRAY_BUFFER 2, glDrawElements GL_TRIANGLES 6 GL_UNSIGNED_INT 0,
      glfwSwapBuffers, glfwPollEvents,
      glfwWindowShouldClose, glfwTerminate]"
proof -
  have d: "window_created driver_ok" "glad_loaded driver_ok"
    by (simp_all add: driver_ok_def)
  have p: "until_exit [idle, quit] = [idle, quit]" "list_ex (\<lambda>f. backspace f = GLFW_PRESS) [idle, quit]"
    by (simp_all add: idle_def quit_def)
  have i: "backspace idle = GLFW_RELEASE" "events idle = []" "backspace quit = GLFW_PRESS" "events quit = []"
    by (simp_all add: idle_def quit_def)
  have h: "shaderProgram driver_ok = 3" "VAO driver_ok = 1" "EBO driver_ok = 2"
    by (simp_all add: driver_ok_def)
  from frame_actions_in_order [OF d, of "[idle, quit]", THEN conjunct1] show ?thesis
    by (simp add: p i h)
qed

subsection \<open>Stale viewports\<close>

lemma fresh_handlers:
  "fresh r w \<Longrightarrow>
   no_stale_render r (concat (map (\<lambda>e. dispatch e # handler e) es)) w \<and>
   fresh (fold resized (concat (map (\<lambda>e. dispatch e # handler e) es)) r)
         (run (concat (map (\<lambda>e. dispatch e # handler e) es)) w)"
proof (induction es arbitrary: r w)
  case Nil
  then show ?case by (simp add: run_Nil)
next
  case (Cons e es)
  obtain x y where e: "e = FramebufferSize x y" by (cases e)
  have "fresh (Some (x, y)) (w\<lparr>viewport := (0, 0, int x, int y)\<rparr>)" by simp
  from Cons.IH [OF this] show ?case
    by (simp add: e framebuffer_size_callback_def run_Cons)
qed

lemma fresh_pollEvents:
  "fresh r w \<Longrightarrow>
   no_stale_render r (pollEvents es) w \<and>
   fresh (fold resized (pollEvents es) r) (run (pollEvents es) w)"
  using fresh_handlers [of r w es] by (simp add: pollEvents_def run_Cons)

lemma fresh_frame2:
  assumes "fresh r w"
  shows "no_stale_render r (frame2 d f) w \<and>
         fresh (fold resized (frame2 d f) r) (run (frame2 d f) w)"
proof -
  let ?A = "processInput (backspace f) @
     [glClearColor 0 0 0 1, glClear GL_COLOR_BUFFER_BIT, glUseProgram (shaderProgram d),
      glBindVertexArray (VAO d), glBindBuffer GL_ELEMENT_ARRAY_BUFFER (EBO d),
      glDrawElements GL_TRIANGLES 6 GL_UNSIGNED_INT 0, glfwSwapBuffers]"
  have r: "fold resized ?A r = r"
    by (simp add: processInput_def)
  have v: "viewport (run ?A w) = viewport w"
    by (simp add: processInput_def run_append run_Cons run_Nil)
  have n: "no_stale_render r ?A w"
  proof (cases r)
    case None
    then show ?thesis by (simp add: processInput_def)
  next
    case (Some p)
    obtain x y where p: "p = (x, y)" by (cases p)
    from assms show ?thesis by (simp add: Some p processInput_def)
  qed
  have "fresh r (run ?A w)"
  proof (cases r)
    case None
    then show ?thesis by simp
  next
    case (Some p)
    obtain x y where p: "p = (x, y)" by (cases p)
    from assms v show ?thesis by (simp only: Some p fresh.simps)
  qed
  from fresh_pollEvents [OF this, of "events f"] n r
  have "no_stale_render r (?A @ pollEvents (events f)) w \<and>
        fresh (fold resized (?A @ pollEvents (events f)) r) (run (?A @ pollEvents (events f)) w)"
    by (simp only: no_stale_append run_append fold_append comp_apply)
  then show ?thesis by (simp add: frame2_def)
qed

lemma fresh_frame1:
  assumes "fresh r w"
  shows "no_stale_render r (frame1 f) w \<and>
         fresh (fold resized (frame1 f) r) (run (frame1 f) w)"
proof -
  let ?A = "processInput (backspace f) @
     [glClearColor 1 (325/1000) (7/10) 1, glClear GL_COLOR_BUFFER_BIT, glfwSwapBuffers]"
  have r: "fold resized ?A r = r"
    by (simp add: processInput_def)
  have v: "viewport (run ?A w) = viewport w"
    by (simp add: processInput_def run_append run_Cons run_Nil)
  have n: "no_stale_render r ?A w"
  proof (cases r)
    case None
    then show ?thesis by (simp add: processInput_def)
  next
    case (Some p)
    obtain x y where p: "p = (x, y)" by (cases p)
    from assms show ?thesis by (simp add: Some p processInput_def)
  qed
  have "fresh r (run ?A w)"
  proof (cases r)
    case None
    then show ?thesis by simp
  next
    case (Some p)
    obtain x y where p: "p = (x, y)" by (cases p)
    from assms v show ?thesis by (simp only: Some p fresh.simps)
  qed
  from fresh_pollEvents [OF this, of "events f"] n r
  have "no_stale_render r (?A @ pollEvents (events f)) w \<and>
        fresh (fold resized (?A @ pollEvents (events f)) r) (run (?A @ pollEvents (events f)) w)"
    by (simp only: no_stale_append run_append fold_append comp_apply)
  then show ?thesis by (simp add: frame1_def)
qed

lemma no_stale_loop:
  assumes body: "\<And>f r w. fresh r w \<Longrightarrow>
      no_stale_render r (body f) w \<and> fresh (fold resized (body f) r) (run (body f) w)"
    and "fresh r w"
  shows "no_stale_render r (fst (render_loop body fs w) @ [glfwTerminate]) w \<and>
         no_stale_render r (fst (render_loop body fs w)) w"
  using assms(2)
proof (induction fs arbitrary: r w)
  case Nil
  then show ?case by simp
next
  case (Cons f fs)
  from body [OF Cons.prems, of f] Cons.IH [of "fold resized (body f) r" "run (body f) w"]
  show ?case
    by (simp only: fst_render_loop_Cons) (simp add: no_stale_append)
qed

lemma no_stale_entry2:
  "no_stale_render None (startup @ make_context @ before_loop d) w \<and>
   fold resized (startup @ make_context @ before_loop d) None = None"
  by (simp add: startup_def make_context_def before_loop_def shaders_def geometry_def)

lemma no_stale_entry1:
  "no_stale_render None (startup @ make_context) w \<and>
   fold resized (startup @ make_context) None = None"
  by (simp add: startup_def make_context_def)

lemma no_stale_failure:
  "no_stale_render None (startup @ [cout s, glfwTerminate]) w \<and>
   no_stale_render None (startup @ make_context @ [cout s]) w"
  by (simp add: startup_def make_context_def)

lemma no_stale_main2: "no_stale_render None (fst (main2 d fs)) (world0 d)"
proof -
  let ?A = "startup @ make_context @ before_loop d"
  let ?w = "run ?A (world0 d)"
  obtain cs w' st where r: "render_loop (frame2 d) fs ?w = (cs, w', st)"
    by (cases "render_loop (frame2 d) fs ?w") auto
  have "fresh None ?w" by simp
  from no_stale_loop [of "frame2 d", OF fresh_frame2 this, of fs] r
  have l: "no_stale_render None (cs @ [glfwTerminate]) ?w" "no_stale_render None cs ?w"
    by simp_all
  have a: "no_stale_render None (?A @ cs @ [glfwTerminate]) (world0 d)"
          "no_stale_render None (?A @ cs) (world0 d)"
    using l no_stale_entry2 [of d "world0 d"] by (simp_all only: no_stale_append)
  show ?thesis
    using a no_stale_failure [of _ "world0 d"]
    by (cases st) (simp_all add: main2_def r)
qed

lemma no_stale_main1: "no_stale_render None (fst (main1 d fs)) (world0 d)"
proof -
  let ?A = "startup @ make_context"
  let ?w = "run ?A (world0 d)"
  obtain cs w' st where r: "render_loop frame1 fs ?w = (cs, w', st)"
    by (cases "render_loop frame1 fs ?w") auto
  have "fresh None ?w" by simp
  from no_stale_loop [of frame1, OF fresh_frame1 this, of fs] r
  have l: "no_stale_render None (cs @ [glfwTerminate]) ?w" "no_stale_render None cs ?w"
    by simp_all
  have a: "no_stale_render None (?A @ cs @ [glfwTerminate]) (world0 d)"
          "no_stale_render None (?A @ cs) (world0 d)"
    using l no_stale_entry1 [of "world0 d"] by (simp_all only: no_stale_append)
  show ?thesis
    using a no_stale_failure [of _ "world0 d"]
    by (cases st) (simp_all add: main1_def r)
qed

lemma viewport_after_poll:
  "viewport (run (pollEvents (es @ [FramebufferSize x y])) w) = (0, 0, int x, int y)"
  by (simp add: pollEvents_def run_Cons run_append run_Nil framebuffer_size_callback_def)

text \<open>
  Claim C6. In both programs every clear and every draw is made with the viewport that
  the last framebuffer-size event handed to the program asked for, if there has been one;
  and when \<^verbatim>\<open>glfwPollEvents\<close>, the last call of a pass, returns after dispatching events
  that end with one of size \<open>(x, y)\<close>, the viewport is \<open>(0, 0, x, y)\<close>.
\<close>

theorem viewport_follows_resize:
  "no_stale_render None (fst (main1 d fs)) (world0 d) \<and>
   no_stale_render None (fst (main2 d fs)) (world0 d) \<and>
   viewport (run (pollEvents (es @ [FramebufferSize x y])) w) = (0, 0, int x, int y)"
  by (simp only: no_stale_main1 no_stale_main2 viewport_after_poll)

theorem viewport_follows_resize_witness:
  "no_stale_render None (fst (main1 driver_ok [resize 800 600, idle, quit])) (world0 driver_ok) \<and>
   no_stale_render None (fst (main2 driver_ok [resize 800 600, idle, quit])) (world0 driver_ok) \<and>
   viewport (run (pollEvents ([FramebufferSize 640 480] @ [FramebufferSize 800 600])) (world0 driver_ok)) =
     (0, 0, 800, 600)"
  using viewport_follows_resize
    [of driver_ok "[resize 800 600, idle, quit]" "[FramebufferSize 640 480]" 800 600 "world0 driver_ok"]
  by simp


subsection \<open>Polygon mode\<close>

lemma polygon_modes_exec: "\<not> is_polygon_mode c \<Longrightarrow> polygon_modes (exec c w) = polygon_modes w"
  by (induction c w rule: exec.induct) (simp_all add: polygon_modes_def)

lemma observe_polygon_modes:
  "filter is_polygon_mode cs = [] \<Longrightarrow>
   observe is_draw polygon_modes cs w =
     replicate (length (filter is_draw cs)) (polygon_modes w)"
proof (induction cs arbitrary: w)
  case Nil
  show ?case by simp
next
  case (Cons c cs)
  from Cons.prems have c: "\<not> is_polygon_mode c" and cs: "filter is_polygon_mode cs = []"
    by (simp_all split: if_splits)
  from Cons.IH [OF cs, of "exec c w"] polygon_modes_exec [OF c, of w] show ?case
    by simp
qed

lemma filter_passes_Nil:
  assumes "\<And>f. filter P (body f) = []" and "\<not> P glfwWindowShouldClose"
  shows "filter P (concat (map (\<lambda>f. glfwWindowShouldClose # body f) fs)) = []"
  by (induction fs) (simp_all add: assms)

lemma filter_before_loop_polygon_mode:
  "filter is_polygon_mode (startup @ make_context @ before_loop d) =
     [glPolygonMode GL_FRONT_AND_BACK GL_LINE]"
  by (simp add: startup_def make_context_def before_loop_def shaders_def geometry_def)

lemma polygon_modes_entry:
  "polygon_modes (run (startup @ make_context @ before_loop d) (world0 d)) = (GL_LINE, GL_LINE)"
  by (simp add: run_append run_startup run_make_context run_shaders before_loop_def
      geometry_def run_Cons run_Nil polygon_modes_def)

lemma main2_failure:
  "\<not> (window_created d \<and> glad_loaded d) \<Longrightarrow>
   fst (main2 d fs) = startup @ [cout ''failed to create GLFW window'', glfwTerminate] \<or>
   fst (main2 d fs) = startup @ make_context @ [cout ''failed to initialize GLAD'']"
  by (auto simp: main2_def)

lemma draws_in_wireframe:
  "observe is_draw polygon_modes (fst (main2 d fs)) (world0 d) =
     replicate (length (filter is_draw (fst (main2 d fs)))) (GL_LINE, GL_LINE)"
proof (cases "window_created d \<and> glad_loaded d")
  case False
  have "filter is_draw (fst (main2 d fs)) = []"
    using main2_failure [OF False, of fs]
    by (auto simp: startup_def make_context_def)
  then show ?thesis by (simp add: observe_filter_Nil)
next
  case True
  let ?A = "startup @ make_context @ before_loop d"
  let ?R = "concat (map (\<lambda>f. glfwWindowShouldClose # frame2 d f) (until_exit fs)) @
            glfwWindowShouldClose #
            (if list_ex (\<lambda>f. backspace f = GLFW_PRESS) fs then [glfwTerminate] else [])"
  have calls: "fst (main2 d fs) = ?A @ ?R"
    using main2_calls [of d fs] True by simp
  have R: "filter is_polygon_mode ?R = []"
    by (simp add: filter_passes_Nil filter_frame2_polygon_mode)
  have "observe is_draw polygon_modes (?A @ ?R) (world0 d) =
          replicate (length (filter is_draw ?R)) (GL_LINE, GL_LINE)"
    using observe_polygon_modes [OF R, of "run ?A (world0 d)"]
      observe_filter_Nil [OF filter_before_loop_draw [of d], of polygon_modes "world0 d"]
    by (simp only: observe_append polygon_modes_entry) simp
  moreover have "filter is_draw (?A @ ?R) = filter is_draw ?R"
    using filter_before_loop_draw [of d] by (simp only: filter_append) simp
  ultimately show ?thesis by (simp only: calls)
qed

lemma one_polygon_mode_call:
  "filter is_polygon_mode (fst (main2 d fs)) =
     (if window_created d \<and> glad_loaded d then [glPolygonMode GL_FRONT_AND_BACK GL_LINE] else [])"
proof (cases "window_created d \<and> glad_loaded d")
  case False
  have "filter is_polygon_mode (fst (main2 d fs)) = []"
    using main2_failure [OF False, of fs]
    by (auto simp: startup_def make_context_def)
  with False show ?thesis by simp
next
  case True
  let ?A = "startup @ make_context @ before_loop d"
  let ?R = "concat (map (\<lambda>f. glfwWindowShouldClose # frame2 d f) (until_exit fs)) @
            glfwWindowShouldClose #
            (if list_ex (\<lambda>f. backspace f = GLFW_PRESS) fs then [glfwTerminate] else [])"
  have calls: "fst (main2 d fs) = ?A @ ?R"
    using main2_calls [of d fs] True by simp
  have R: "filter is_polygon_mode ?R = []"
    by (simp add: filter_passes_Nil filter_frame2_polygon_mode)
  have "filter is_polygon_mode (?A @ ?R) = [glPolygonMode GL_FRONT_AND_BACK GL_LINE]"
    using R filter_before_loop_polygon_mode [of d] by (simp only: filter_append) simp
  with True show ?thesis by (simp only: calls) simp
qed

lemma main2_draws:
  assumes "window_created d" and "glad_loaded d"
  shows "filter is_draw (fst (main2 d fs)) =
           replicate (length (until_exit fs)) (glDrawElements GL_TRIANGLES 6 GL_UNSIGNED_INT 0)"
  using filter_before_loop_draw [of d] filter_draw_passes [of d "until_exit fs"]
  by (simp only: main2_calls [OF assms] filter_append) simp

text \<open>
  Claim C9. In the second program every \<^verbatim>\<open>glDrawElements\<close> is made while the polygon mode
  of the front and of the back faces is \<^verbatim>\<open>GL_LINE\<close>. The whole trace holds one
  \<^verbatim>\<open>glPolygonMode\<close> call, \<^verbatim>\<open>glPolygonMode(GL_FRONT_AND_BACK, GL_LINE)\<close>; it is among the
  calls made before the loop, so the loop is entered in line mode and never changes it.
\<close>

theorem wireframe_every_draw:
  "observe is_draw polygon_modes (fst (main2 d fs)) (world0 d) =
     replicate (length (filter is_draw (fst (main2 d fs)))) (GL_LINE, GL_LINE) \<and>
   filter is_polygon_mode (fst (main2 d fs)) =
     (if window_created d \<and> glad_loaded d then [glPolygonMode GL_FRONT_AND_BACK GL_LINE] else []) \<and>
   filter is_polygon_mode (before_loop d) = [glPolygonMode GL_FRONT_AND_BACK GL_LINE] \<and>
   polygon_modes (run (startup @ make_context @ before_loop d) (world0 d)) = (GL_LINE, GL_LINE)"
proof -
  have "filter is_polygon_mode (before_loop d) = [glPolygonMode GL_FRONT_AND_BACK GL_LINE]"
    by (simp add: before_loop_def shaders_def geometry_def)
  then show ?thesis
    by (simp only: draws_in_wireframe one_polygon_mode_call polygon_modes_entry)
qed

theorem wireframe_every_draw_witness:
  "observe is_draw polygon_modes (fst (main2 driver_ok [idle, idle, quit])) (world0 driver_ok) =
     [(GL_LINE, GL_LINE), (GL_LINE, GL_LINE), (GL_LINE, GL_LINE)]"
proof -
  have d: "window_created driver_ok" "glad_loaded driver_ok"
    by (simp_all add: driver_ok_def)
  have "until_exit [idle, idle, quit] = [idle, idle, quit]"
    by (simp add: idle_def quit_def)
  with main2_draws [OF d, of "[idle, idle, quit]"]
  have n: "length (filter is_draw (fst (main2 driver_ok [idle, idle, quit]))) = 3"
    by simp
  from wireframe_every_draw [of driver_ok "[idle, idle, quit]", THEN conjunct1] show ?thesis
    by (simp only: n) (simp add: numeral_3_eq_3)
qed


subsection \<open>Stage objects\<close>

lemma filter_frame2_stage: "filter stage_call (frame2 d f) = []"
  by (simp add: frame2_def processInput_def filter_pollEvents)

lemma after_link_shaders:
  "after_link (shaders d @ cs) =
     glGetProgramiv (shaderProgram d) GL_LINK_STATUS #
     (if link_status d = 0 then
        [glGetProgramInfoLog (shaderProgram d) 512,
         cout (''ERROR::SHADER::PROGRAM::LINKING::FAILED'' @ [CHR 0x0A] @
               infoLog (program_info_log d))]
      else []) @
     [glDeleteShader (vertexShader d), glDeleteShader (fragmentShader d)] @ cs"
  by (simp add: after_link_def shaders_def)

lemma after_link_entry:
  "after_link (startup @ make_context @ cs) = after_link cs"
  by (simp add: after_link_def startup_def make_context_def)

text \<open>
  Claim C7. In the second program, whatever the compile and link status, the calls that
  follow \<^verbatim>\<open>glLinkProgram\<close> and take a stage object are exactly the two deletions, of the
  vertex stage and of the fragment stage: both are released after the link attempt and
  neither is used again.
\<close>

theorem stages_deleted_after_link:
  assumes "window_created d" and "glad_loaded d"
  shows "filter stage_call (after_link (fst (main2 d fs))) =
           [glDeleteShader (vertexShader d), glDeleteShader (fragmentShader d)] \<and>
         filter stage_call (after_link (shaders d)) =
           [glDeleteShader (vertexShader d), glDeleteShader (fragmentShader d)]"
proof -
  let ?R = "concat (map (\<lambda>f. glfwWindowShouldClose # frame2 d f) (until_exit fs)) @
            glfwWindowShouldClose #
            (if list_ex (\<lambda>f. backspace f = GLFW_PRESS) fs then [glfwTerminate] else [])"
  let ?G = "geometry d @ [glPolygonMode GL_FRONT_AND_BACK GL_LINE] @ ?R"
  have calls: "fst (main2 d fs) = startup @ make_context @ shaders d @ ?G"
    using main2_calls [OF assms, of fs] by (simp add: before_loop_def)
  have R: "filter stage_call ?R = []"
    by (simp add: filter_passes_Nil filter_frame2_stage)
  have G: "filter stage_call ?G = []"
    using R by (simp add: geometry_def)
  have 1: "filter stage_call (after_link (shaders d @ ?G)) =
             [glDeleteShader (vertexShader d), glDeleteShader (fragmentShader d)]"
    using G by (simp only: after_link_shaders filter_append) simp
  have 2: "filter stage_call (after_link (shaders d @ [])) =
             [glDeleteShader (vertexShader d), glDeleteShader (fragmentShader d)]"
    by (simp only: after_link_shaders filter_append) simp
  from 1 2 show ?thesis
    by (simp only: calls after_link_entry append_Nil2)
qed

theorem stages_deleted_after_link_witness:
  "filter stage_call (after_link (fst (main2 driver_bad_vertex [idle, quit]))) =
     [glDeleteShader 1, glDeleteShader 2] \<and>
   filter stage_call (after_link (shaders driver_bad_vertex)) =
     [glDeleteShader 1, glDeleteShader 2]"
proof -
  have d: "window_created driver_bad_vertex" "glad_loaded driver_bad_vertex"
    by (simp_all add: driver_bad_vertex_def driver_ok_def)
  have h: "vertexShader driver_bad_vertex = 1" "fragmentShader driver_bad_vertex = 2"
    by (simp_all add: driver_bad_vertex_def driver_ok_def)
  from stages_deleted_after_link [OF d, of "[idle, quit]"] show ?thesis
    by (simp only: h)
qed

subsection \<open>Geometry and layout\<close>

text \<open>
  Claim C8. The second program configures one vertex attribute: slot 0 with 3 components
  of type \<^verbatim>\<open>GL_FLOAT\<close>, not normalised, a stride of 3 times the size of a float and offset
  0, and it enables slot 0. When the loop is entered the vertex array \<open>VAO\<close> holds that
  layout for slot 0, reading from the buffer \<open>VBO\<close>, and has slot 0 enabled.
\<close>

theorem attribute_zero_layout:
  "filter is_attrib_call (fst (main2 d fs)) =
     (if window_created d \<and> glad_loaded d
      then [glVertexAttribPointer 0 3 GL_FLOAT False (3 * sizeof_float) 0,
            glEnableVertexAttribArray 0]
      else []) \<and>
   attribs (run (startup @ make_context @ before_loop d) (world0 d)) =
     [((VAO d, 0),
       \<lparr>components = 3, component = GL_FLOAT, normalized = False,
        stride = 3 * sizeof_float, offset = 0, source_buffer = VBO d\<rparr>)] \<and>
   enabled_attribs (run (startup @ make_context @ before_loop d) (world0 d)) = [(VAO d, 0)]"
proof -
  have 1: "filter is_attrib_call (fst (main2 d fs)) =
     (if window_created d \<and> glad_loaded d
      then [glVertexAttribPointer 0 3 GL_FLOAT False (3 * sizeof_float) 0,
            glEnableVertexAttribArray 0]
      else [])"
  proof (cases "window_created d \<and> glad_loaded d")
    case False
    have "filter is_attrib_call (fst (main2 d fs)) = []"
      using main2_failure [OF False, of fs]
      by (auto simp: startup_def make_context_def)
    with False show ?thesis by simp
  next
    case True
    let ?A = "startup @ make_context @ before_loop d"
    let ?R = "concat (map (\<lambda>f. glfwWindowShouldClose # frame2 d f) (until_exit fs)) @
              glfwWindowShouldClose #
              (if list_ex (\<lambda>f. backspace f = GLFW_PRESS) fs then [glfwTerminate] else [])"
    have calls: "fst (main2 d fs) = ?A @ ?R"
      using main2_calls [of d fs] True by simp
    have f: "filter is_attrib_call (frame2 d f) = []" for f
      by (simp add: frame2_def processInput_def filter_pollEvents)
    have R: "filter is_attrib_call ?R = []"
      by (simp add: filter_passes_Nil f)
    have A: "filter is_attrib_call ?A =
               [glVertexAttribPointer 0 3 GL_FLOAT False (3 * sizeof_float) 0,
                glEnableVertexAttribArray 0]"
      by (simp add: startup_def make_context_def before_loop_def shaders_def geometry_def)
    from True A R show ?thesis by (simp only: calls filter_append) simp
  qed
  have 2: "attribs (run (startup @ make_context @ before_loop d) (world0 d)) =
     [((VAO d, 0),
       \<lparr>components = 3, component = GL_FLOAT, normalized = False,
        stride = 3 * sizeof_float, offset = 0, source_buffer = VBO d\<rparr>)]"
    by (simp add: run_append run_startup run_make_context run_shaders before_loop_def
        geometry_def run_Cons run_Nil world0_def)
  have 3: "enabled_attribs (run (startup @ make_context @ before_loop d) (world0 d)) = [(VAO d, 0)]"
    by (simp add: run_append run_startup run_make_context run_shaders before_loop_def
        geometry_def run_Cons run_Nil world0_def)
  from 1 2 3 show ?thesis by (simp only:)
qed

theorem attribute_zero_layout_witness:
  "filter is_attrib_call (fst (main2 driver_ok [quit])) =
     [glVertexAttribPointer 0 3 GL_FLOAT False 12 0, glEnableVertexAttribArray 0]"
  using attribute_zero_layout [of driver_ok "[quit]", THEN conjunct1]
  by (simp add: driver_ok_def sizeof_float_def)

text \<open>
  Claim C4. The second program uploads 12 floats, that is four vertices of three
  coordinates, and the six indices 0, 1, 3, 1, 2, 3. Every index is below the number of
  vertices, \<open>length vertices div 3 = 4\<close>. Read as triangles the indices are (0, 1, 3) and
  (1, 2, 3), whose common corners are the vertices 1 and 3.
\<close>

theorem quad_geometry:
  "length vertices = 3 * 4 \<and>
   indices = [0, 1, 3, 1, 2, 3] \<and>
   list_all (\<lambda>i. unat i < length vertices div 3) indices \<and>
   triangles indices = [(0, 1, 3), (1, 2, 3)] \<and>
   corners (triangles indices ! 0) \<inter> corners (triangles indices ! 1) = {1, 3} \<and>
   filter is_upload (geometry d) =
     [glBufferData GL_ARRAY_BUFFER (length vertices * sizeof_float) (Floats vertices) GL_STATIC_DRAW,
      glBufferData GL_ELEMENT_ARRAY_BUFFER (length indices * sizeof_unsigned_int) (UInts indices)
        GL_STATIC_DRAW]"
proof -
  have "corners (triangles indices ! 0) \<inter> corners (triangles indices ! 1) = {1, 3}"
    by (auto simp: indices_def corners_def)
  moreover have "filter is_upload (geometry d) =
     [glBufferData GL_ARRAY_BUFFER (length vertices * sizeof_float) (Floats vertices) GL_STATIC_DRAW,
      glBufferData GL_ELEMENT_ARRAY_BUFFER (length indices * sizeof_unsigned_int) (UInts indices)
        GL_STATIC_DRAW]"
    by (simp add: geometry_def)
  moreover have "length vertices = 3 * 4" by (simp add: vertices_def)
  moreover have "list_all (\<lambda>i. unat i < length vertices div 3) indices"
    by (simp add: vertices_def indices_def)
  moreover have "triangles indices = [(0, 1, 3), (1, 2, 3)]"
    by (simp add: indices_def)
  moreover have "indices = [0, 1, 3, 1, 2, 3]"
    by (simp add: indices_def)
  ultimately show ?thesis by (simp only:)
qed

subsection \<open>Input sampling\<close>

text \<open>
  Claim C10. \<^verbatim>\<open>processInput\<close>, the same function in both programs, leaves the world as it
  is when \<^verbatim>\<open>glfwGetKey\<close> answers \<^verbatim>\<open>GLFW_RELEASE\<close>, and when it answers \<^verbatim>\<open>GLFW_PRESS\<close>
  changes nothing but the close flag of the window, which it sets.
\<close>

theorem processInput_sets_close_flag_only:
  "run (processInput GLFW_RELEASE) w = w \<and>
   run (processInput GLFW_PRESS) w = w\<lparr>should_close := True\<rparr>"
  by (simp add: run_processInput)

subsection \<open>Diagnostics and exit codes\<close>

lemma logged_shaders:
  "logged (shaders d) =
     (if vertex_compile_status d = 0 then
        [cout (''ERROR::SHADER::VERTEX::COMPILATION_FAILED'' @ [CHR 0x0A] @
               infoLog (vertex_info_log d))]
      else []) @
     (if link_status d = 0 then
        [cout (''ERROR::SHADER::PROGRAM::LINKING::FAILED'' @ [CHR 0x0A] @
               infoLog (program_info_log d))]
      else [])"
  by (simp add: logged_def shaders_def)

lemma shaders_ignore_fragment_status:
  "shaders (d\<lparr>fragment_compile_status := s, fragment_info_log := l\<rparr>) = shaders d"
  by (simp add: shaders_def)

lemma no_diagnostic_on_success:
  "vertex_compile_status d \<noteq> 0 \<Longrightarrow> link_status d \<noteq> 0 \<Longrightarrow> logged (shaders d) = []"
  by (simp add: logged_shaders)

lemma diagnostic_on_vertex_or_link_failure:
  "vertex_compile_status d = 0 \<or> link_status d = 0 \<Longrightarrow> logged (shaders d) \<noteq> []"
  by (auto simp: logged_shaders)

text \<open>
  Claim C1 asks that a fragment stage that fails to compile is recorded and logged as a
  vertex stage is. On a driver where the fragment stage alone fails to compile (and the
  link fails for it), the program writes the link diagnostic only: it never reads the
  compile status or the info log of the fragment stage (handle 2 here). On the driver
  where the vertex stage fails instead, it writes the compile diagnostic of the vertex
  stage and then the link diagnostic.
\<close>

theorem fragment_failure_not_logged:
  "logged (shaders driver_bad_fragment) =
     [cout (''ERROR::SHADER::PROGRAM::LINKING::FAILED'' @ [CHR 0x0A] @
            ''error: linking with uncompiled shader'')] \<and>
   filter (\<lambda>c. c = glGetShaderiv 2 GL_COMPILE_STATUS \<or> c = glGetShaderInfoLog 2 512)
     (shaders driver_bad_fragment) = [] \<and>
   fragmentShader driver_bad_fragment = 2 \<and>
   logged (shaders driver_bad_vertex) =
     [cout (''ERROR::SHADER::VERTEX::COMPILATION_FAILED'' @ [CHR 0x0A] @
            ''0:5(2): error: syntax error''),
      cout (''ERROR::SHADER::PROGRAM::LINKING::FAILED'' @ [CHR 0x0A] @
            ''error: linking with uncompiled shader'')]"
  by (simp add: logged_def shaders_def driver_bad_fragment_def driver_bad_vertex_def
      driver_ok_def infoLog_def)

lemma exit_codes2:
  "snd (main2 d fs) =
     (if \<not> window_created d \<or> \<not> glad_loaded d then Some (- 1)
      else if list_ex (\<lambda>f. backspace f = GLFW_PRESS) fs then Some 0 else None)"
  using main2_exit [of d fs] by (auto simp: main2_def)

lemma exit_codes1:
  "snd (main1 d fs) =
     (if \<not> window_created d \<or> \<not> glad_loaded d then Some (- 1)
      else if list_ex (\<lambda>f. backspace f = GLFW_PRESS) fs then Some 0 else None)"
proof -
  let ?w = "run (startup @ make_context) (world0 d)"
  obtain cs w' st where r: "render_loop frame1 fs ?w = (cs, w', st)"
    by (cases "render_loop frame1 fs ?w") auto
  have st: "st = (if list_ex (\<lambda>f. backspace f = GLFW_PRESS) fs then STOPPED else RUNNING)"
    using render_loop_state [of frame1 ?w fs, OF should_close_frame1 entry_running1] r by simp
  show ?thesis by (simp add: main1_def r st)
qed

lemma window_failure_terminates:
  "\<not> window_created d \<Longrightarrow>
   main2 d fs = (startup @ [cout ''failed to create GLFW window'', glfwTerminate], Some (- 1)) \<and>
   main1 d fs = (startup @ [cout ''failed to create GLFW window'', glfwTerminate], Some (- 1))"
  by (simp add: main2_def main1_def)

text \<open>
  Claim C3 asks that both start-up failures release what was acquired before the process
  exits with -1. When the window is created and glad fails to load, both programs print
  the message and return -1 without calling \<^verbatim>\<open>glfwTerminate\<close>: the window and the library
  stay acquired.
\<close>

theorem loader_failure_skips_terminate:
  "main2 driver_no_glad fs = (startup @ make_context @ [cout ''failed to initialize GLAD''], Some (- 1)) \<and>
   main1 driver_no_glad fs = (startup @ make_context @ [cout ''failed to initialize GLAD''], Some (- 1)) \<and>
   filter (\<lambda>c. c = glfwTerminate) (fst (main2 driver_no_glad fs)) = [] \<and>
   filter (\<lambda>c. c = glfwTerminate) (fst (main1 driver_no_glad fs)) = []"
  by (simp add: main2_def main1_def driver_no_glad_def driver_ok_def startup_def make_context_def)


end
